theory Spec2Isabelle
  imports Complex_Main "HOL-Library.Char_ord" "HOL-Library.List_Lexorder"
begin

section \<open>The reply decision of app.py\<close>

text \<open>
  This theory embeds \<^verbatim>\<open>decide_reply\<close> of \<^verbatim>\<open>src/app.py\<close> (lines 48 to 105): the
  choice between a short cited answer from the knowledge base and a prompt for the
  generative model, the text of both, and the list of sources appended to a generated reply.

  Conventions of the model.
  \<^item> A Python \<^verbatim>\<open>str\<close> is a \<open>string\<close> holding its UTF-8 bytes. Concatenation and
    equality are those of Python; the byte-wise lexicographic order of
    \<^verbatim>\<open>HOL-Library.List_Lexorder\<close> is the code-point order Python's \<^verbatim>\<open>sorted\<close> uses.
  \<^item> A retrieved item is a Python dict. Its key \<^verbatim>\<open>score\<close> is read only by
    \<^verbatim>\<open>float(...)\<close> and its other keys only as text, so the dict is split into a map of
    the text-valued keys and the value under \<^verbatim>\<open>score\<close>. Text values are strings; a
    score is a float, \<^verbatim>\<open>None\<close>, or missing.
  \<^item> A Python float is a \<open>real\<close>; rounding, infinities and NaN are not modelled.
  \<^item> An exception that leaves \<^verbatim>\<open>decide_reply\<close> is an \<open>Inl\<close> result.
\<close>

subsection \<open>Data\<close>

type_synonym dict = "string \<rightharpoonup> string"

datatype score_val = ScoreNone | ScoreFloat real

record entry =
  attrs :: dict
  score :: "score_val option"

datatype error = TypeError

text \<open>
  What \<^verbatim>\<open>decide_reply\<close> has decided when it either returns without calling the model
  (lines 65 and 83) or has composed the prompt it is about to send (lines 52 and 94).
\<close>

datatype decision =
    DirectAnswer string
  | GroundedPrompt string
  | NoResult string

text \<open>
  \<^verbatim>\<open>model.generate_content\<close> and the reading of its response (lines 54 to 57, again 96
  to 99) belong to an external library. Their outcome is a parameter of the model:
  \<open>Raised msg\<close> when an exception \<^verbatim>\<open>e\<close> is raised inside the \<^verbatim>\<open>try\<close> block, with
  \<open>msg\<close> the text of \<^verbatim>\<open>e\<close>; \<open>Generated None\<close> when \<^verbatim>\<open>text\<close> ends up falsy;
  \<open>Generated (Some t)\<close> when it is truthy and \<open>t\<close> is \<^verbatim>\<open>text.strip()\<close>.
\<close>

datatype generation = Raised string | Generated "string option"

subsection \<open>Python primitives\<close>

abbreviation NL :: string where
  "NL \<equiv> [CHR 0x0A]"

text \<open>\<^verbatim>\<open>d.get(k, default)\<close>: the default stands in for a missing key only.\<close>

definition get :: "dict \<Rightarrow> string \<Rightarrow> string \<Rightarrow> string" where
  "get d k dflt = (case d k of None \<Rightarrow> dflt | Some v \<Rightarrow> v)"

text \<open>
  \<^verbatim>\<open>d.get(k) or y\<close>: \<^verbatim>\<open>d.get(k)\<close> is \<^verbatim>\<open>None\<close> for a missing key, and both
  \<^verbatim>\<open>None\<close> and the empty string are falsy.
\<close>

definition or_else :: "string option \<Rightarrow> string \<Rightarrow> string" where
  "or_else x y = (case x of None \<Rightarrow> y | Some s \<Rightarrow> if s = [] then y else s)"

text \<open>\<^verbatim>\<open>float(v)\<close>: the identity on a float, \<^verbatim>\<open>TypeError\<close> on \<^verbatim>\<open>None\<close>.\<close>

definition py_float :: "score_val \<Rightarrow> error + real" where
  "py_float v = (case v of ScoreNone \<Rightarrow> Inl TypeError | ScoreFloat x \<Rightarrow> Inr x)"

text \<open>
  \<^verbatim>\<open>s.lower()\<close> on the ASCII letters. No character outside ASCII lowercases to one of
  the letters of \<^verbatim>\<open>urgent\<close>, so the comparison of line 81 is decided exactly.
\<close>

definition lower_char :: "char \<Rightarrow> char" where
  "lower_char c =
     (if CHR ''A'' \<le> c \<and> c \<le> CHR ''Z'' then char_of (of_char c + (32::nat)) else c)"

definition lower :: "string \<Rightarrow> string" where
  "lower s = map lower_char s"

text \<open>\<^verbatim>\<open>sep.join(xs)\<close>.\<close>

fun join :: "string \<Rightarrow> string list \<Rightarrow> string" where
  "join sep [] = []"
| "join sep [x] = x"
| "join sep (x # y # ys) = x @ sep @ join sep (y # ys)"

subsection \<open>Constants\<close>

definition CULTURE_SYSTEM_PROMPT :: string where
  "CULTURE_SYSTEM_PROMPT =
     NL @ ''You are Umeeda, an assistant for users in Pakistan. Answer respectfully and according to Islamic and local cultural norms.''
     @ NL @ ''Follow these rules:''
     @ NL @ ''1. Use modest, family-friendly and respectful language.''
     @ NL @ ''2. Avoid sexual/explicit content or instructions for harmful/illegal activities.''
     @ NL @ ''3. Do not produce content that insults, dehumanizes, or encourages violence towards any person or group.''
     @ NL @ ''4. If the user requests something that violates the rules above, politely refuse and optionally provide a safe alternative.''
     @ NL @ ''5. Be concise and, when appropriate, reference Islamic values respectfully.''
     @ NL"

definition HIGH_CONFIDENCE_THRESHOLD :: real where
  "HIGH_CONFIDENCE_THRESHOLD = 0.78"

text \<open>The literal of line 82; it starts with U+26A0 U+FE0F, written as UTF-8 bytes.\<close>

definition urgency_banner :: string where
  "urgency_banner =
     [CHR 0xE2, CHR 0x9A, CHR 0xA0, CHR 0xEF, CHR 0xB8, CHR 0x8F]
     @ '' This appears urgent. Please consult a qualified person.'' @ NL @ NL"

text \<open>The literal of line 65.\<close>

definition no_reference_message :: string where
  "no_reference_message =
     ''I couldn't find a direct reference. Please rephrase or ask for more details.''"

text \<open>The literal of lines 58 and 100; the dash is U+2014.\<close>

definition no_answer_message :: string where
  "no_answer_message =
     ''Sorry '' @ [CHR 0xE2, CHR 0x80, CHR 0x94] @ '' I couldn't produce an answer.''"

subsection \<open>The fields of the top item (lines 67 to 75)\<close>

definition read_score :: "entry \<Rightarrow> error + real" where
  "read_score top_entry = py_float (case score top_entry of None \<Rightarrow> ScoreFloat 0.0 | Some v \<Rightarrow> v)"

definition short_answer_of :: "dict \<Rightarrow> string" where
  "short_answer_of d = or_else (d ''short_answer'') (or_else (d ''text'') [])"

definition detailed_answer_of :: "dict \<Rightarrow> string" where
  "detailed_answer_of d = or_else (d ''detailed_answer'') (or_else (d ''text'') [])"

definition entry_id_of :: "dict \<Rightarrow> string" where
  "entry_id_of d = or_else (d ''id'') (or_else (d ''chunk_id'') ''unknown'')"

definition source_of :: "dict \<Rightarrow> string" where
  "source_of d = get d ''source'' ''unknown''"

definition risk_of :: "dict \<Rightarrow> string" where
  "risk_of d = get d ''risk_level'' (get d ''risk'' ''Info'')"

subsection \<open>The direct answer (lines 78 to 83)\<close>

definition is_urgent :: "entry \<Rightarrow> bool" where
  "is_urgent r =
     (lower (get (attrs r) ''risk_level'' []) = ''urgent''
      \<or> lower (get (attrs r) ''risk'' []) = ''urgent'')"

definition any_urgent :: "entry list \<Rightarrow> bool" where
  "any_urgent results = list_ex is_urgent results"

definition citation_line :: "dict \<Rightarrow> string" where
  "citation_line d = ''Source: ['' @ source_of d @ '' | ID:'' @ entry_id_of d @ '']''"

definition direct_answer :: "entry list \<Rightarrow> entry \<Rightarrow> string" where
  "direct_answer results top_entry =
     (let prefix = (if any_urgent results then urgency_banner else [])
      in prefix @ short_answer_of (attrs top_entry) @ NL @ NL @ citation_line (attrs top_entry))"

subsection \<open>The prompt with retrieved knowledge (lines 86 to 94)\<close>

definition context_entry :: "entry \<Rightarrow> string" where
  "context_entry r =
     (let r_src = get (attrs r) ''source'' ''unknown'';
          r_id = get (attrs r) ''id'' (get (attrs r) ''chunk_id'' ''unknown'');
          r_risk = get (attrs r) ''risk_level'' (get (attrs r) ''risk'' ''Info'');
          r_detail = or_else (attrs r ''detailed_answer'') (or_else (attrs r ''text'') [])
      in ''['' @ r_src @ '' | ID:'' @ r_id @ '' | Risk:'' @ r_risk @ '']'' @ NL
         @ r_detail @ NL @ NL)"

text \<open>The loop of lines 87 to 92, with \<open>acc\<close> the value of \<^verbatim>\<open>rag_context\<close> so far.\<close>

fun rag_loop :: "string \<Rightarrow> entry list \<Rightarrow> string" where
  "rag_loop acc [] = acc"
| "rag_loop acc (r # rs) = rag_loop (acc @ context_entry r) rs"

definition rag_context :: "entry list \<Rightarrow> string" where
  "rag_context results = rag_loop [] results"

definition rag_prompt :: "string \<Rightarrow> entry list \<Rightarrow> string" where
  "rag_prompt query results =
     CULTURE_SYSTEM_PROMPT @ NL @ NL @ ''Retrieved knowledge:'' @ NL
     @ rag_context results
     @ NL @ ''User question:'' @ NL @ query
     @ NL @ NL @ ''Answer using the retrieved knowledge and cite sources.''"

definition fallback_prompt :: "string \<Rightarrow> string" where
  "fallback_prompt query = CULTURE_SYSTEM_PROMPT @ NL @ NL @ ''User: '' @ query"

subsection \<open>The sources list (line 102)\<close>

definition source_pair :: "entry \<Rightarrow> string \<times> string" where
  "source_pair r =
     (get (attrs r) ''source'' ''unknown'',
      get (attrs r) ''id'' (get (attrs r) ''chunk_id'' ''?''))"

definition render_pair :: "string \<times> string \<Rightarrow> string" where
  "render_pair p = fst p @ '' (ID '' @ snd p @ '')''"

definition source_item :: "entry \<Rightarrow> string" where
  "source_item r = render_pair (source_pair r)"

definition source_items :: "entry list \<Rightarrow> string list" where
  "source_items results = sorted_list_of_set (set (map source_item results))"

definition sources :: "entry list \<Rightarrow> string" where
  "sources results = join '', '' (source_items results)"

subsection \<open>decide_reply\<close>

text \<open>
  \<open>decide\<close> is \<^verbatim>\<open>decide_reply\<close> up to the point where it returns or calls the model.
  Its second argument is \<open>None\<close> when \<^verbatim>\<open>INDEX\<close> or \<^verbatim>\<open>METADATA\<close> is \<^verbatim>\<open>None\<close>
  (line 50) and otherwise holds the list \<^verbatim>\<open>retrieve\<close> returned (line 63).
\<close>

fun decide :: "string \<Rightarrow> entry list option \<Rightarrow> error + decision" where
  "decide query None = Inr (GroundedPrompt (fallback_prompt query))"
| "decide query (Some []) = Inr (NoResult no_reference_message)"
| "decide query (Some (top_entry # rest)) =
     (case read_score top_entry of
        Inl e \<Rightarrow> Inl e
      | Inr s \<Rightarrow>
          if HIGH_CONFIDENCE_THRESHOLD \<le> s \<and> short_answer_of (attrs top_entry) \<noteq> []
          then Inr (DirectAnswer (direct_answer (top_entry # rest) top_entry))
          else Inr (GroundedPrompt (rag_prompt query (top_entry # rest))))"

text \<open>
  The rest of \<^verbatim>\<open>decide_reply\<close>: the two \<^verbatim>\<open>try\<close> blocks (lines 53 to 60 and 95 to
  105). Only the second appends the sources list.
\<close>

definition model_reply :: "(string \<Rightarrow> generation) \<Rightarrow> string \<Rightarrow> entry list option \<Rightarrow> string" where
  "model_reply generate prompt retrieval =
     (case generate prompt of
        Raised msg \<Rightarrow> ''Error contacting model: '' @ msg
      | Generated text \<Rightarrow>
          (let final = (case text of Some t \<Rightarrow> t | None \<Rightarrow> no_answer_message)
           in case retrieval of
                None \<Rightarrow> final
              | Some results \<Rightarrow> final @ NL @ NL @ ''Sources: '' @ sources results))"

definition reply :: "(string \<Rightarrow> generation) \<Rightarrow> string \<Rightarrow> entry list option \<Rightarrow> error + string" where
  "reply generate query retrieval =
     (case decide query retrieval of
        Inl e \<Rightarrow> Inl e
      | Inr (DirectAnswer text) \<Rightarrow> Inr text
      | Inr (NoResult message) \<Rightarrow> Inr message
      | Inr (GroundedPrompt prompt) \<Rightarrow> Inr (model_reply generate prompt retrieval))"

text \<open>
  The whole function, with the module's globals \<^verbatim>\<open>INDEX\<close> and \<^verbatim>\<open>METADATA\<close> and the
  imported \<^verbatim>\<open>retrieve\<close> as parameters (\<open>None\<close> is Python's \<^verbatim>\<open>None\<close>).
\<close>

definition retrieval_of ::
  "(string \<Rightarrow> 'i \<Rightarrow> 'm \<Rightarrow> nat \<Rightarrow> entry list) \<Rightarrow> 'i option \<Rightarrow> 'm option \<Rightarrow> string \<Rightarrow> entry list option" where
  "retrieval_of retrieve INDEX METADATA query =
     (case INDEX of
        None \<Rightarrow> None
      | Some i \<Rightarrow> (case METADATA of None \<Rightarrow> None | Some m \<Rightarrow> Some (retrieve query i m 4)))"

definition decide_reply ::
  "(string \<Rightarrow> generation) \<Rightarrow> (string \<Rightarrow> 'i \<Rightarrow> 'm \<Rightarrow> nat \<Rightarrow> entry list) \<Rightarrow> 'i option \<Rightarrow> 'm option \<Rightarrow> string \<Rightarrow> error + string" where
  "decide_reply generate retrieve INDEX METADATA query =
     reply generate query (retrieval_of retrieve INDEX METADATA query)"

subsection \<open>The field resolution the specification describes\<close>

text \<open>
  The specification's rule for a canonical field: go through the candidate values in
  order and take the first that is not empty (a missing key is skipped too); take the
  literal when there is none. It is compared below with the lookups of lines 71 to 75.
\<close>

fun spec_first_non_empty :: "string option list \<Rightarrow> string \<Rightarrow> string" where
  "spec_first_non_empty [] dflt = dflt"
| "spec_first_non_empty (None # cs) dflt = spec_first_non_empty cs dflt"
| "spec_first_non_empty (Some s # cs) dflt =
     (if s = [] then spec_first_non_empty cs dflt else s)"

text \<open>The rule that skips missing keys only: the first value present wins, empty or not.\<close>

fun first_present :: "string option list \<Rightarrow> string \<Rightarrow> string" where
  "first_present [] dflt = dflt"
| "first_present (None # cs) dflt = first_present cs dflt"
| "first_present (Some s # cs) dflt = s"

subsection \<open>Example retrieval results\<close>

text \<open>The entry of the specification's first end-to-end example, retrieved with score 0.9.\<close>

definition example_patient :: entry where
  "example_patient =
     \<lparr>attrs = [''id'' \<mapsto> ''A1'', ''source'' \<mapsto> ''Quran-Tafsir'',
               ''short_answer'' \<mapsto> ''Be patient.'', ''risk_level'' \<mapsto> ''Info''],
      score = Some (ScoreFloat 0.9)\<rparr>"

text \<open>An entry whose score is exactly the threshold.\<close>

definition example_boundary :: entry where
  "example_boundary =
     \<lparr>attrs = [''id'' \<mapsto> ''A2'', ''source'' \<mapsto> ''Hadith'', ''short_answer'' \<mapsto> ''Give thanks.''],
      score = Some (ScoreFloat 0.78)\<rparr>"

text \<open>An entry from PDF ingestion: a chunk with text, no score recorded.\<close>

definition example_chunk :: entry where
  "example_chunk =
     \<lparr>attrs = [''chunk_id'' \<mapsto> ''B2'', ''source'' \<mapsto> ''Hadith'',
               ''text'' \<mapsto> ''Patience is rewarded.''],
      score = None\<rparr>"

text \<open>An entry whose \<^verbatim>\<open>risk_level\<close> is not urgent while its \<^verbatim>\<open>risk\<close> is.\<close>

definition example_two_risks :: entry where
  "example_two_risks =
     \<lparr>attrs = [''id'' \<mapsto> ''A3'', ''source'' \<mapsto> ''Fiqh'', ''short_answer'' \<mapsto> ''Seek help.'',
               ''risk_level'' \<mapsto> ''Info'', ''risk'' \<mapsto> ''Urgent''],
      score = Some (ScoreFloat 0.9)\<rparr>"

text \<open>An entry whose \<^verbatim>\<open>score\<close> key holds \<^verbatim>\<open>None\<close>.\<close>

definition example_none_score :: entry where
  "example_none_score =
     \<lparr>attrs = [''id'' \<mapsto> ''A4'', ''source'' \<mapsto> ''Fiqh'', ''short_answer'' \<mapsto> ''Ask a scholar.''],
      score = Some ScoreNone\<rparr>"

text \<open>An entry whose \<^verbatim>\<open>source\<close> and \<^verbatim>\<open>id\<close> are present and empty.\<close>

definition example_blank_identity :: entry where
  "example_blank_identity =
     \<lparr>attrs = [''id'' \<mapsto> [], ''source'' \<mapsto> [], ''short_answer'' \<mapsto> ''Be patient.''],
      score = Some (ScoreFloat 0.9)\<rparr>"

text \<open>An entry with no keys at all.\<close>

definition example_bare :: entry where
  "example_bare = \<lparr>attrs = Map.empty, score = None\<rparr>"

text \<open>An item whose \<^verbatim>\<open>risk_level\<close> is present and empty while its \<^verbatim>\<open>risk\<close> is urgent.\<close>

definition example_blank_risk :: dict where
  "example_blank_risk = [''risk_level'' \<mapsto> [], ''risk'' \<mapsto> ''Urgent'']"

text \<open>A chunk that carries neither \<^verbatim>\<open>id\<close> nor \<^verbatim>\<open>chunk_id\<close>.\<close>

definition example_no_id :: entry where
  "example_no_id =
     \<lparr>attrs = [''source'' \<mapsto> ''Hadith'', ''text'' \<mapsto> ''Patience is rewarded.''],
      score = None\<rparr>"

text \<open>The same chunk with the id \<^verbatim>\<open>unknown\<close> written out.\<close>

definition example_named_unknown :: entry where
  "example_named_unknown =
     \<lparr>attrs = [''source'' \<mapsto> ''Hadith'', ''id'' \<mapsto> ''unknown'', ''text'' \<mapsto> ''Patience is rewarded.''],
      score = None\<rparr>"

text \<open>A chunk whose \<^verbatim>\<open>id\<close> is present and empty, with a \<^verbatim>\<open>chunk_id\<close>.\<close>

definition example_blank_id :: entry where
  "example_blank_id =
     \<lparr>attrs = [''id'' \<mapsto> [], ''chunk_id'' \<mapsto> ''B2'', ''source'' \<mapsto> ''Hadith'',
               ''text'' \<mapsto> ''Patience is rewarded.''],
      score = None\<rparr>"

section \<open>Properties\<close>

subsection \<open>Auxiliary facts\<close>

lemma rag_loop_append: "rag_loop acc rs = acc @ concat (map context_entry rs)"
  by (induction rs arbitrary: acc) simp_all

lemma rag_context_concat: "rag_context rs = concat (map context_entry rs)"
  by (simp add: rag_context_def rag_loop_append)

lemma context_entry_text:
  "context_entry r =
     ''['' @ source_of (attrs r) @ '' | ID:''
     @ get (attrs r) ''id'' (get (attrs r) ''chunk_id'' ''unknown'')
     @ '' | Risk:'' @ risk_of (attrs r) @ '']'' @ NL
     @ detailed_answer_of (attrs r) @ NL @ NL"
  by (simp add: context_entry_def source_of_def risk_of_def detailed_answer_of_def)

lemma source_items_sorted: "sorted (source_items rs)"
  by (simp add: source_items_def)

lemma source_items_distinct: "distinct (source_items rs)"
  by (simp add: source_items_def)

lemma source_items_set: "set (source_items rs) = source_item ` set rs"
  by (simp add: source_items_def)

lemma direct_answer_not_empty: "direct_answer rs t \<noteq> []"
  by (simp add: direct_answer_def citation_line_def Let_def)

lemma urgency_banner_not_empty: "urgency_banner \<noteq> []"
  by (simp add: urgency_banner_def)

lemma any_urgent_iff:
  "any_urgent rs \<longleftrightarrow>
     (\<exists>r\<in>set rs. lower (get (attrs r) ''risk_level'' []) = ''urgent''
                  \<or> lower (get (attrs r) ''risk'' []) = ''urgent'')"
  by (simp add: any_urgent_def list_ex_iff is_urgent_def)

lemma or_else_first_non_empty:
  "or_else a (or_else b dflt) = spec_first_non_empty [a, b] dflt"
  by (cases a; cases b) (simp_all add: or_else_def)

lemma or_else_not_empty: "dflt \<noteq> [] \<Longrightarrow> or_else a (or_else b dflt) \<noteq> []"
  by (cases a; cases b) (simp_all add: or_else_def)

lemma read_score_of_score:
  "score top_entry = Some (ScoreFloat s) \<or> score top_entry = None \<and> s = 0
   \<Longrightarrow> read_score top_entry = Inr s"
  by (auto simp: read_score_def py_float_def)

subsection \<open>The choice of branch\<close>

text \<open>
  Claim C1 as stated covers every retrieval result with at least one entry. When the
  \<^verbatim>\<open>score\<close> of the top entry is \<^verbatim>\<open>None\<close>, line 68 raises before the branch is
  chosen: the decision is neither a direct answer nor a grounded prompt.
\<close>

theorem decide_branch_counterexample:
  "decide ''Whom should I ask?'' (Some [example_none_score, example_patient]) = Inl TypeError
   \<and> score example_none_score = Some ScoreNone"
  by code_simp

text \<open>
  Claim C1, amended. For a retrieval result with at least one entry whose top score is a
  float \<open>s\<close>, or is missing and then counts as \<open>s = 0\<close>, the decision is a direct
  answer exactly when \<open>s\<close> is at least \<open>HIGH_CONFIDENCE_THRESHOLD\<close> and the short answer
  of the top entry is not empty, and it is a grounded prompt in every other case. A score
  equal to the threshold counts as confident, and a direct answer is never the empty text.
\<close>

theorem decide_direct_iff_confident:
  assumes "score top_entry = Some (ScoreFloat s) \<or> score top_entry = None \<and> s = 0"
  shows "((\<exists>text. decide query (Some (top_entry # rest)) = Inr (DirectAnswer text))
            \<longleftrightarrow> (HIGH_CONFIDENCE_THRESHOLD \<le> s \<and> short_answer_of (attrs top_entry) \<noteq> []))
       \<and> ((\<exists>prompt. decide query (Some (top_entry # rest)) = Inr (GroundedPrompt prompt))
            \<longleftrightarrow> \<not> (HIGH_CONFIDENCE_THRESHOLD \<le> s \<and> short_answer_of (attrs top_entry) \<noteq> []))
       \<and> (s = HIGH_CONFIDENCE_THRESHOLD \<and> short_answer_of (attrs top_entry) \<noteq> []
            \<longrightarrow> (\<exists>text. decide query (Some (top_entry # rest)) = Inr (DirectAnswer text)))
       \<and> decide query (Some (top_entry # rest)) \<noteq> Inr (DirectAnswer [])"
  using read_score_of_score [OF assms] by (simp add: direct_answer_not_empty)

theorem decide_direct_iff_confident_witness:
  "score example_boundary = Some (ScoreFloat 0.78)
   \<and> 0.78 = HIGH_CONFIDENCE_THRESHOLD
   \<and> short_answer_of (attrs example_boundary) \<noteq> []
   \<and> (\<exists>text. decide ''What should I do after a blessing?'' (Some [example_boundary, example_chunk])
                = Inr (DirectAnswer text))
   \<and> score example_chunk = None
   \<and> (\<exists>prompt. decide ''Is patience rewarded?'' (Some [example_chunk, example_boundary])
                = Inr (GroundedPrompt prompt))"
proof -
  have h: "score example_boundary = Some (ScoreFloat 0.78) \<or> score example_boundary = None \<and> (0.78::real) = 0"
    by (simp add: example_boundary_def)
  have h': "score example_boundary = Some (ScoreFloat 0.78)"
    by (simp add: example_boundary_def)
  have s: "short_answer_of (attrs example_boundary) \<noteq> []"
    by (simp add: short_answer_of_def or_else_def example_boundary_def)
  have t: "0.78 = HIGH_CONFIDENCE_THRESHOLD"
    by (simp add: HIGH_CONFIDENCE_THRESHOLD_def)
  have k: "score example_chunk = Some (ScoreFloat 0) \<or> score example_chunk = None \<and> (0::real) = 0"
    by (simp add: example_chunk_def)
  have k': "score example_chunk = None"
    by (simp add: example_chunk_def)
  have n: "\<not> HIGH_CONFIDENCE_THRESHOLD \<le> 0"
    by (simp add: HIGH_CONFIDENCE_THRESHOLD_def)
  from decide_direct_iff_confident [OF h, of "''What should I do after a blessing?''" "[example_chunk]"]
  have a: "\<exists>text. decide ''What should I do after a blessing?'' (Some [example_boundary, example_chunk])
                = Inr (DirectAnswer text)"
    using s t by (simp del: decide.simps)
  from decide_direct_iff_confident [OF k, of "''Is patience rewarded?''" "[example_boundary]"]
  have b: "\<exists>prompt. decide ''Is patience rewarded?'' (Some [example_chunk, example_boundary])
                = Inr (GroundedPrompt prompt)"
    using n by (simp del: decide.simps)
  show ?thesis using h' s t a k' b by (simp del: decide.simps)
qed

subsection \<open>The urgency banner\<close>

text \<open>
  Claim C2 as stated ties the banner to the resolved risk level of some entry. Line 81
  looks at the keys \<^verbatim>\<open>risk_level\<close> and \<^verbatim>\<open>risk\<close> separately: an entry whose
  \<^verbatim>\<open>risk_level\<close> is \<^verbatim>\<open>Info\<close> and whose \<^verbatim>\<open>risk\<close> is \<^verbatim>\<open>Urgent\<close> has the risk
  level \<^verbatim>\<open>Info\<close> (by line 75 and by the specification's rule alike), and the banner is
  there all the same.
\<close>

theorem urgency_banner_counterexample:
  "decide ''Is this serious?'' (Some [example_two_risks])
     = Inr (DirectAnswer (urgency_banner @ ''Seek help.'' @ NL @ NL @ ''Source: [Fiqh | ID:A3]''))
   \<and> lower (risk_of (attrs example_two_risks)) \<noteq> ''urgent''
   \<and> lower (spec_first_non_empty
               [attrs example_two_risks ''risk_level'', attrs example_two_risks ''risk''] ''Info'')
       \<noteq> ''urgent''"
  by code_simp

text \<open>
  Claim C2, amended. In a direct answer the banner is prepended if and only if some
  retrieved entry, at any rank, has a \<^verbatim>\<open>risk_level\<close> value or a \<^verbatim>\<open>risk\<close> value
  that is \<^verbatim>\<open>urgent\<close> up to case; without such an entry the text starts with the short
  answer.
\<close>

theorem urgency_banner_iff_any_field_urgent:
  assumes "decide query (Some (top_entry # rest)) = Inr (DirectAnswer text)"
  shows "(text = urgency_banner @ short_answer_of (attrs top_entry) @ NL @ NL @ citation_line (attrs top_entry)
            \<longleftrightarrow> (\<exists>r\<in>set (top_entry # rest).
                   lower (get (attrs r) ''risk_level'' []) = ''urgent''
                   \<or> lower (get (attrs r) ''risk'' []) = ''urgent''))
       \<and> (text = short_answer_of (attrs top_entry) @ NL @ NL @ citation_line (attrs top_entry)
            \<longleftrightarrow> \<not> (\<exists>r\<in>set (top_entry # rest).
                   lower (get (attrs r) ''risk_level'' []) = ''urgent''
                   \<or> lower (get (attrs r) ''risk'' []) = ''urgent''))"
proof -
  from assms have t: "text = direct_answer (top_entry # rest) top_entry"
    by (auto split: sum.splits if_splits)
  show ?thesis
    unfolding t direct_answer_def Let_def any_urgent_iff [symmetric]
    using urgency_banner_not_empty by (cases "any_urgent (top_entry # rest)") simp_all
qed

theorem urgency_banner_iff_any_field_urgent_witness:
  "decide ''Is this serious?'' (Some [example_patient, example_two_risks])
     = Inr (DirectAnswer (urgency_banner @ ''Be patient.'' @ NL @ NL @ ''Source: [Quran-Tafsir | ID:A1]''))
   \<and> lower (get (attrs example_two_risks) ''risk'' []) = ''urgent''"
proof -
  have d: "decide ''Is this serious?'' (Some [example_patient, example_two_risks])
     = Inr (DirectAnswer (urgency_banner @ ''Be patient.'' @ NL @ NL @ ''Source: [Quran-Tafsir | ID:A1]''))"
    by code_simp
  have u: "lower (get (attrs example_two_risks) ''risk'' []) = ''urgent''"
    by code_simp
  from urgency_banner_iff_any_field_urgent [OF d] d u show ?thesis by simp
qed

subsection \<open>The text of a direct answer\<close>

text \<open>
  Claim C3 as stated asks that no entry is urgent. With \<^verbatim>\<open>risk_level\<close>
  \<^verbatim>\<open>Info\<close> and \<^verbatim>\<open>risk\<close> \<^verbatim>\<open>Urgent\<close> the risk level of the top entry is
  \<^verbatim>\<open>Info\<close>, no entry is urgent, the high-confidence branch is taken, and the text
  starts with the banner instead of the short answer.
\<close>

theorem direct_answer_text_counterexample:
  "decide ''Is this serious?'' (Some [example_two_risks, example_patient])
     = Inr (DirectAnswer (urgency_banner @ ''Seek help.'' @ NL @ NL @ ''Source: [Fiqh | ID:A3]''))
   \<and> decide ''Is this serious?'' (Some [example_two_risks, example_patient])
     \<noteq> Inr (DirectAnswer (''Seek help.'' @ NL @ NL @ ''Source: [Fiqh | ID:A3]''))
   \<and> short_answer_of (attrs example_two_risks) = ''Seek help.''
   \<and> lower (risk_of (attrs example_two_risks)) \<noteq> ''urgent''
   \<and> lower (risk_of (attrs example_patient)) \<noteq> ''urgent''
   \<and> lower (spec_first_non_empty
               [attrs example_two_risks ''risk_level'', attrs example_two_risks ''risk''] ''Info'')
       \<noteq> ''urgent''
   \<and> lower (spec_first_non_empty
               [attrs example_patient ''risk_level'', attrs example_patient ''risk''] ''Info'')
       \<noteq> ''urgent''"
  by code_simp

text \<open>
  Claim C3, amended. When the high-confidence branch is taken and no retrieved entry has
  a \<^verbatim>\<open>risk_level\<close> value or a \<^verbatim>\<open>risk\<close> value that is \<^verbatim>\<open>urgent\<close> up to case,
  the direct answer is the short answer of the top entry, a blank line, and the citation
  line with the source and id of the top entry. The instance below is the specification's
  first end-to-end example.
\<close>

theorem direct_answer_text_without_urgency:
  assumes "score top_entry = Some (ScoreFloat s)"
    and "HIGH_CONFIDENCE_THRESHOLD \<le> s"
    and "short_answer_of (attrs top_entry) \<noteq> []"
    and "\<forall>r\<in>set (top_entry # rest).
           lower (get (attrs r) ''risk_level'' []) \<noteq> ''urgent''
           \<and> lower (get (attrs r) ''risk'' []) \<noteq> ''urgent''"
  shows "decide query (Some (top_entry # rest))
         = Inr (DirectAnswer (short_answer_of (attrs top_entry) @ NL @ NL
                 @ ''Source: ['' @ source_of (attrs top_entry) @ '' | ID:''
                 @ entry_id_of (attrs top_entry) @ '']''))"
proof -
  from assms(1) have r: "read_score top_entry = Inr s"
    by (simp add: read_score_of_score)
  from assms(4) have "\<not> any_urgent (top_entry # rest)"
    unfolding any_urgent_iff by blast
  with r assms(2,3) show ?thesis
    by (simp add: direct_answer_def citation_line_def)
qed

theorem direct_answer_text_without_urgency_witness:
  "score example_patient = Some (ScoreFloat 0.9)
   \<and> HIGH_CONFIDENCE_THRESHOLD \<le> 0.9
   \<and> decide ''How do I cope with hardship?'' (Some [example_patient])
       = Inr (DirectAnswer (''Be patient.'' @ NL @ NL @ ''Source: [Quran-Tafsir | ID:A1]''))"
proof -
  have h: "score example_patient = Some (ScoreFloat 0.9)" by (simp add: example_patient_def)
  have t: "HIGH_CONFIDENCE_THRESHOLD \<le> 0.9" by (simp add: HIGH_CONFIDENCE_THRESHOLD_def)
  have s: "short_answer_of (attrs example_patient) = ''Be patient.''" by code_simp
  have s': "short_answer_of (attrs example_patient) \<noteq> []" unfolding s by simp
  have u: "\<forall>r\<in>set [example_patient].
           lower (get (attrs r) ''risk_level'' []) \<noteq> ''urgent''
           \<and> lower (get (attrs r) ''risk'' []) \<noteq> ''urgent''" by code_simp
  have src: "source_of (attrs example_patient) = ''Quran-Tafsir''" by code_simp
  have i: "entry_id_of (attrs example_patient) = ''A1''" by code_simp
  from direct_answer_text_without_urgency [OF h t s' u, of "''How do I cope with hardship?''"]
  show ?thesis using h t s src i by simp
qed

subsection \<open>Reading the score\<close>

text \<open>
  Claim C4 as stated also promises 0.0 for a score that is present and not a number.
  \<^verbatim>\<open>None\<close> is such a score, and \<^verbatim>\<open>float(None)\<close> raises \<^verbatim>\<open>TypeError\<close> on line
  68, outside any \<^verbatim>\<open>try\<close>.
\<close>

theorem non_numeric_score_counterexample:
  "read_score example_none_score = Inl TypeError
   \<and> decide ''Whom should I ask?'' (Some [example_none_score]) = Inl TypeError"
  by code_simp

text \<open>
  Claim C4, amended. When the top entry has no \<^verbatim>\<open>score\<close> key, the score is 0.0, the
  low-confidence branch is taken, and no error is raised: the reply is the model's reply
  to the grounded prompt. A float score is read as it is, again without an error. A score
  of \<^verbatim>\<open>None\<close> is not replaced by 0.0: \<^verbatim>\<open>float(None)\<close> raises \<^verbatim>\<open>TypeError\<close>,
  which leaves the function.
\<close>

theorem score_read_absent_or_float:
  "(score top_entry = None \<longrightarrow>
      read_score top_entry = Inr 0
      \<and> decide query (Some (top_entry # rest))
          = Inr (GroundedPrompt (rag_prompt query (top_entry # rest)))
      \<and> reply generate query (Some (top_entry # rest))
          = Inr (model_reply generate (rag_prompt query (top_entry # rest)) (Some (top_entry # rest))))
   \<and> (score top_entry = Some (ScoreFloat x) \<longrightarrow>
      read_score top_entry = Inr x
      \<and> (\<exists>d. decide query (Some (top_entry # rest)) = Inr d)
      \<and> (\<exists>text. reply generate query (Some (top_entry # rest)) = Inr text))
   \<and> (score top_entry = Some ScoreNone \<longrightarrow>
      read_score top_entry = Inl TypeError
      \<and> decide query (Some (top_entry # rest)) = Inl TypeError
      \<and> reply generate query (Some (top_entry # rest)) = Inl TypeError)"
proof -
  have a: "score top_entry = None \<longrightarrow>
      read_score top_entry = Inr 0
      \<and> decide query (Some (top_entry # rest))
          = Inr (GroundedPrompt (rag_prompt query (top_entry # rest)))
      \<and> reply generate query (Some (top_entry # rest))
          = Inr (model_reply generate (rag_prompt query (top_entry # rest)) (Some (top_entry # rest)))"
    by (simp add: read_score_def py_float_def reply_def HIGH_CONFIDENCE_THRESHOLD_def)
  have b: "score top_entry = Some (ScoreFloat x) \<longrightarrow>
      read_score top_entry = Inr x
      \<and> (\<exists>d. decide query (Some (top_entry # rest)) = Inr d)
      \<and> (\<exists>text. reply generate query (Some (top_entry # rest)) = Inr text)"
    by (simp add: read_score_def py_float_def reply_def)
  have c: "score top_entry = Some ScoreNone \<longrightarrow>
      read_score top_entry = Inl TypeError
      \<and> decide query (Some (top_entry # rest)) = Inl TypeError
      \<and> reply generate query (Some (top_entry # rest)) = Inl TypeError"
    by (simp add: read_score_def py_float_def reply_def)
  from a b c show ?thesis by blast
qed

theorem score_read_absent_or_float_witness:
  "score example_chunk = None
   \<and> read_score example_chunk = Inr 0
   \<and> decide ''Is patience rewarded?'' (Some [example_chunk, example_patient])
       = Inr (GroundedPrompt (rag_prompt ''Is patience rewarded?'' [example_chunk, example_patient]))
   \<and> score example_patient = Some (ScoreFloat 0.9)
   \<and> read_score example_patient = Inr 0.9
   \<and> (\<exists>d. decide ''How do I cope with hardship?'' (Some [example_patient, example_chunk]) = Inr d)
   \<and> score example_none_score = Some ScoreNone
   \<and> read_score example_none_score = Inl TypeError"
proof -
  have h: "score example_chunk = None" by (simp add: example_chunk_def)
  have k: "score example_patient = Some (ScoreFloat 0.9)" by (simp add: example_patient_def)
  have n: "score example_none_score = Some ScoreNone" by (simp add: example_none_score_def)
  from score_read_absent_or_float [of example_chunk "''Is patience rewarded?''" "[example_patient]"] h
  have a: "read_score example_chunk = Inr 0
   \<and> decide ''Is patience rewarded?'' (Some [example_chunk, example_patient])
       = Inr (GroundedPrompt (rag_prompt ''Is patience rewarded?'' [example_chunk, example_patient]))"
    by blast
  from score_read_absent_or_float [of example_patient "''How do I cope with hardship?''" "[example_chunk]" _ "0.9"] k
  have b: "read_score example_patient = Inr 0.9
   \<and> (\<exists>d. decide ''How do I cope with hardship?'' (Some [example_patient, example_chunk]) = Inr d)"
    by blast
  from score_read_absent_or_float [of example_none_score] n
  have c: "read_score example_none_score = Inl TypeError"
    by blast
  from h k n a b c show ?thesis by blast
qed

subsection \<open>Field resolution\<close>

text \<open>
  Claim C5 as stated lets an empty value fall through for every field. Lines 74 and 75
  use \<^verbatim>\<open>get\<close> with a default, which replaces a missing key only: an empty
  \<^verbatim>\<open>source\<close> stays empty, and an empty \<^verbatim>\<open>risk_level\<close> hides \<^verbatim>\<open>risk\<close>.
\<close>

theorem normalization_counterexample:
  "source_of (attrs example_blank_identity) = []
   \<and> spec_first_non_empty [attrs example_blank_identity ''source''] ''unknown'' = ''unknown''
   \<and> risk_of example_blank_risk = []
   \<and> spec_first_non_empty [example_blank_risk ''risk_level'', example_blank_risk ''risk''] ''Info''
       = ''Urgent''"
  by code_simp

text \<open>
  Claim C5, amended. The five lookups are total. The id, the short answer and the
  detailed answer take the first candidate that is not empty; the source and the risk level
  take the first candidate whose key is present, empty or not.
\<close>

theorem normalization_resolution_order:
  "entry_id_of d = spec_first_non_empty [d ''id'', d ''chunk_id''] ''unknown''
   \<and> short_answer_of d = spec_first_non_empty [d ''short_answer'', d ''text''] []
   \<and> detailed_answer_of d = spec_first_non_empty [d ''detailed_answer'', d ''text''] []
   \<and> source_of d = first_present [d ''source''] ''unknown''
   \<and> risk_of d = first_present [d ''risk_level'', d ''risk''] ''Info''"
  unfolding entry_id_of_def short_answer_of_def detailed_answer_of_def source_of_def risk_of_def
  by (cases "d ''risk_level''"; cases "d ''risk''"; cases "d ''source''")
     (simp_all add: or_else_first_non_empty get_def)

subsection \<open>Identity fields in citations\<close>

text \<open>
  Claim C6 as stated promises a non-empty source and id in every citation. An entry whose
  \<^verbatim>\<open>source\<close> is the empty string is cited with an empty source.
\<close>

theorem citation_identity_counterexample:
  "decide ''How do I cope?'' (Some [example_blank_identity])
     = Inr (DirectAnswer (''Be patient.'' @ NL @ NL @ ''Source: [ | ID:unknown]''))
   \<and> source_of (attrs example_blank_identity) = []
   \<and> source_pair example_blank_identity = ([], [])
   \<and> sources [example_blank_identity] = '' (ID )''"
  by code_simp

text \<open>
  Claim C6, amended. The citation line of a direct answer always has a non-empty id. Its
  source is not empty unless the record holds an empty \<^verbatim>\<open>source\<close>, and is
  \<^verbatim>\<open>unknown\<close> when the key is missing. Every item of the sources list renders an entry
  of the retrieval, with the same guarantee for its source and with a non-empty id when the
  record holds no empty \<^verbatim>\<open>id\<close> or \<^verbatim>\<open>chunk_id\<close>.
\<close>

theorem citation_identity_non_empty:
  "citation_line (attrs r) = ''Source: ['' @ source_of (attrs r) @ '' | ID:'' @ entry_id_of (attrs r) @ '']''
   \<and> entry_id_of (attrs r) \<noteq> []
   \<and> (attrs r ''source'' \<noteq> Some [] \<longrightarrow> source_of (attrs r) \<noteq> [])
   \<and> (attrs r ''source'' = None \<longrightarrow> source_of (attrs r) = ''unknown'')
   \<and> (\<forall>item\<in>set (source_items results). \<exists>r\<in>set results.
         item = fst (source_pair r) @ '' (ID '' @ snd (source_pair r) @ '')''
         \<and> (attrs r ''source'' \<noteq> Some [] \<longrightarrow> fst (source_pair r) \<noteq> [])
         \<and> (attrs r ''source'' = None \<longrightarrow> fst (source_pair r) = ''unknown'')
         \<and> (attrs r ''id'' \<noteq> Some [] \<and> attrs r ''chunk_id'' \<noteq> Some [] \<longrightarrow> snd (source_pair r) \<noteq> []))"
proof -
  have a: "entry_id_of (attrs r) \<noteq> []"
    by (simp add: entry_id_of_def or_else_not_empty)
  have b: "attrs r ''source'' \<noteq> Some [] \<longrightarrow> source_of (attrs r) \<noteq> []"
    by (cases "attrs r ''source''") (simp_all add: source_of_def get_def)
  have c: "attrs r ''source'' = None \<longrightarrow> source_of (attrs r) = ''unknown''"
    by (simp add: source_of_def get_def)
  have d: "fst (source_pair x) \<noteq> []" if "attrs x ''source'' \<noteq> Some []" for x
    using that by (cases "attrs x ''source''") (simp_all add: source_pair_def get_def)
  have e: "fst (source_pair x) = ''unknown''" if "attrs x ''source'' = None" for x
    using that by (simp add: source_pair_def get_def)
  have f: "snd (source_pair x) \<noteq> []"
    if "attrs x ''id'' \<noteq> Some [] \<and> attrs x ''chunk_id'' \<noteq> Some []" for x
    using that by (cases "attrs x ''id''"; cases "attrs x ''chunk_id''") (simp_all add: source_pair_def get_def)
  have g: "\<forall>item\<in>set (source_items results). \<exists>r\<in>set results.
         item = fst (source_pair r) @ '' (ID '' @ snd (source_pair r) @ '')''
         \<and> (attrs r ''source'' \<noteq> Some [] \<longrightarrow> fst (source_pair r) \<noteq> [])
         \<and> (attrs r ''source'' = None \<longrightarrow> fst (source_pair r) = ''unknown'')
         \<and> (attrs r ''id'' \<noteq> Some [] \<and> attrs r ''chunk_id'' \<noteq> Some [] \<longrightarrow> snd (source_pair r) \<noteq> [])"
    unfolding source_items_set
  proof
    fix item assume "item \<in> source_item ` set results"
    then obtain x where x: "x \<in> set results" "item = source_item x" by blast
    show "\<exists>r\<in>set results.
         item = fst (source_pair r) @ '' (ID '' @ snd (source_pair r) @ '')''
         \<and> (attrs r ''source'' \<noteq> Some [] \<longrightarrow> fst (source_pair r) \<noteq> [])
         \<and> (attrs r ''source'' = None \<longrightarrow> fst (source_pair r) = ''unknown'')
         \<and> (attrs r ''id'' \<noteq> Some [] \<and> attrs r ''chunk_id'' \<noteq> Some [] \<longrightarrow> snd (source_pair r) \<noteq> [])"
      using x d [of x] e [of x] f [of x]
      by (intro bexI [of _ x]) (simp_all add: source_item_def render_pair_def)
  qed
  show ?thesis using a b c g by (simp add: citation_line_def)
qed

theorem citation_identity_non_empty_witness:
  "attrs example_chunk ''source'' \<noteq> Some []
   \<and> attrs example_bare ''source'' = None
   \<and> source_of (attrs example_chunk) = ''Hadith''
   \<and> source_of (attrs example_bare) = ''unknown''
   \<and> citation_line (attrs example_bare) = ''Source: [unknown | ID:unknown]''
   \<and> source_items [example_chunk] = [''Hadith (ID B2)'']
   \<and> fst (source_pair example_chunk) \<noteq> []
   \<and> snd (source_pair example_chunk) \<noteq> []"
proof -
  have 1: "attrs example_chunk ''source'' \<noteq> Some []" by code_simp
  have 2: "attrs example_bare ''source'' = None" by code_simp
  have 3: "source_of (attrs example_chunk) = ''Hadith''" by code_simp
  have 4: "entry_id_of (attrs example_bare) = ''unknown''" by code_simp
  have 5: "source_items [example_chunk] = [''Hadith (ID B2)'']" by code_simp
  have 6: "attrs example_chunk ''id'' \<noteq> Some [] \<and> attrs example_chunk ''chunk_id'' \<noteq> Some []"
    by code_simp
  from citation_identity_non_empty [of example_bare "[example_chunk]"]
  show ?thesis using 1 2 3 4 5 6 by simp
qed

subsection \<open>The sources list\<close>

text \<open>
  Claim C7. Every item of the sources list is \<^verbatim>\<open>source (ID id)\<close> for the source and
  id of a retrieved entry, and results with the same (source, id) pairs give the same
  string. Line 102 does not use the id of the entry: it reads \<^verbatim>\<open>id\<close> and
  \<^verbatim>\<open>chunk_id\<close> again, with the default \<^verbatim>\<open>?\<close>. For a chunk without either key the
  id is \<^verbatim>\<open>unknown\<close> on line 73 and in the context block of line 89, and \<^verbatim>\<open>?\<close> in
  the sources list; the same chunk with the id \<^verbatim>\<open>unknown\<close> written out has the same
  source and id and another sources string.
\<close>

theorem sources_item_id_disagrees:
  "sources [example_no_id] = ''Hadith (ID ?)''
   \<and> entry_id_of (attrs example_no_id) = ''unknown''
   \<and> rag_context [example_no_id]
       = ''[Hadith | ID:unknown | Risk:Info]'' @ NL @ ''Patience is rewarded.'' @ NL @ NL
   \<and> source_of (attrs example_named_unknown) = source_of (attrs example_no_id)
   \<and> entry_id_of (attrs example_named_unknown) = entry_id_of (attrs example_no_id)
   \<and> sources [example_named_unknown] = ''Hadith (ID unknown)''"
  by code_simp

subsection \<open>The context block\<close>

text \<open>
  Claim C8. Every entry is rendered in the context block with its source, id and risk
  level in the header. The loop keeps the order of the retrieval (see
  \<open>rag_context_concat\<close> and \<open>context_entry_text\<close>), and line 89 reads the id again
  without the fall-through of line 73: for a top entry whose \<^verbatim>\<open>id\<close> is empty and whose
  \<^verbatim>\<open>chunk_id\<close> is \<^verbatim>\<open>B2\<close>, line 73 finds the id \<^verbatim>\<open>B2\<close> and the header shows
  an empty id.
\<close>

theorem context_header_id_disagrees:
  "decide ''Is patience rewarded?'' (Some [example_blank_id])
     = Inr (GroundedPrompt (rag_prompt ''Is patience rewarded?'' [example_blank_id]))
   \<and> rag_context [example_blank_id]
       = ''[Hadith | ID: | Risk:Info]'' @ NL @ ''Patience is rewarded.'' @ NL @ NL
   \<and> entry_id_of (attrs example_blank_id) = ''B2''"
  by code_simp

subsection \<open>No index, and no result\<close>

text \<open>
  Claim C9. When \<^verbatim>\<open>INDEX\<close> or \<^verbatim>\<open>METADATA\<close> is \<^verbatim>\<open>None\<close>, the decision is a
  grounded prompt made of the preamble and the query alone, whatever the retriever would
  return.
\<close>

theorem no_index_fallback_prompt:
  assumes "INDEX = None \<or> METADATA = None"
  shows "retrieval_of retrieve INDEX METADATA query = None
       \<and> decide query (retrieval_of retrieve INDEX METADATA query)
           = Inr (GroundedPrompt (CULTURE_SYSTEM_PROMPT @ NL @ NL @ ''User: '' @ query))"
  using assms by (auto simp: retrieval_of_def fallback_prompt_def split: option.splits)

theorem no_index_fallback_prompt_witness:
  "((None :: unit option) = None \<or> Some () = None)
   \<and> decide ''Is patience rewarded?''
        (retrieval_of (\<lambda>q i m k. [example_patient]) (None :: unit option) (Some ()) ''Is patience rewarded?'')
       = Inr (GroundedPrompt (CULTURE_SYSTEM_PROMPT @ NL @ NL @ ''User: '' @ ''Is patience rewarded?''))"
proof -
  have h: "(None :: unit option) = None \<or> Some () = None" by simp
  from no_index_fallback_prompt
          [OF h, of "\<lambda>q i m k. [example_patient]" "''Is patience rewarded?''"]
  show ?thesis using h by blast
qed

text \<open>
  Claim C10. When the retriever returns the empty list, the decision is \<open>NoResult\<close>,
  and the reply is the message of line 65, whatever the model would generate.
\<close>

theorem empty_retrieval_no_result:
  assumes "retrieve query i m 4 = []"
  shows "decide query (retrieval_of retrieve (Some i) (Some m) query)
           = Inr (NoResult ''I couldn't find a direct reference. Please rephrase or ask for more details.'')
       \<and> decide_reply generate retrieve (Some i) (Some m) query
           = Inr ''I couldn't find a direct reference. Please rephrase or ask for more details.''"
  using assms
  by (simp add: decide_reply_def reply_def retrieval_of_def no_reference_message_def)

theorem empty_retrieval_no_result_witness:
  "(\<lambda>q i m k. []) ''What is the capital of France?'' () () 4 = ([] :: entry list)
   \<and> decide_reply (\<lambda>prompt. Generated (Some ''Paris'')) (\<lambda>q i m k. []) (Some ()) (Some ()) ''What is the capital of France?''
       = Inr ''I couldn't find a direct reference. Please rephrase or ask for more details.''"
  using empty_retrieval_no_result
          [of "\<lambda>q i m k. []" "''What is the capital of France?''" "()" "()" "\<lambda>prompt. Generated (Some ''Paris'')"]
  by simp

end
